theory Spec2Isabelle
  imports Main "HOL-Library.Word" "HOL-Library.AList" "HOL-Library.Sublist"
begin

section \<open>Values, documents and the document store\<close>

text \<open>
  The API of \<^verbatim>\<open>main.py\<close> moves Python dictionaries between the request, the MongoDB
  collections and the response. A dictionary is an association list in insertion order
  (\<open>AList.update\<close> overwrites a key in place and appends a new one, as assignment to a
  Python dict does; \<open>AList.delete\<close> is \<^verbatim>\<open>pop\<close>). Strings are lists of characters, one
  \<open>char\<close> per code point, so that \<open>length\<close> is Python's \<^verbatim>\<open>len\<close>.
\<close>

type_synonym byte = "8 word"

text \<open>The 12 bytes of a \<^verbatim>\<open>bson.ObjectId\<close> (its \<^verbatim>\<open>binary\<close>).\<close>

type_synonym objid = "byte list"

datatype pyval =
    PNone
  | PBool bool
  | PInt int
  | PStr string
  | POid objid
  | PDatetime int
  | PList "pyval list"
  | PDict "(string \<times> pyval) list"

type_synonym doc = "(string \<times> pyval) list"

text \<open>The database handle \<^verbatim>\<open>db\<close>: \<^verbatim>\<open>db[name]\<close> is a collection, in store order.\<close>

type_synonym store = "string \<Rightarrow> doc list"

datatype http_error =
    BadRequest        \<comment> \<open>\<^verbatim>\<open>HTTPException(status_code=400, detail="Invalid id")\<close>\<close>
  | NotFound          \<comment> \<open>\<^verbatim>\<open>HTTPException(status_code=404, detail="Tournament not found")\<close>\<close>
  | ValidationError   \<comment> \<open>the request body fails its pydantic schema (HTTP 422)\<close>
  | Unhandled         \<comment> \<open>an exception no handler catches (HTTP 500)\<close>

text \<open>Python truthiness, as \<^verbatim>\<open>if x\<close>, \<^verbatim>\<open>not x\<close> and \<^verbatim>\<open>x or y\<close> read it.\<close>

fun truthy :: "pyval \<Rightarrow> bool" where
  "truthy PNone = False"
| "truthy (PBool b) = b"
| "truthy (PInt n) = (n \<noteq> 0)"
| "truthy (PStr s) = (s \<noteq> [])"
| "truthy (POid i) = True"
| "truthy (PDatetime t) = True"
| "truthy (PList xs) = (xs \<noteq> [])"
| "truthy (PDict d) = (d \<noteq> [])"

text \<open>\<^verbatim>\<open>d.get(k)\<close>: the value, or \<^verbatim>\<open>None\<close> for a missing key.\<close>

definition dict_get :: "doc \<Rightarrow> string \<Rightarrow> pyval" where
  "dict_get d k = (case map_of d k of None \<Rightarrow> PNone | Some v \<Rightarrow> v)"

subsection \<open>Hexadecimal strings and ObjectId\<close>

definition hexdigit :: "nat \<Rightarrow> char" where
  "hexdigit n = ''0123456789abcdef'' ! n"

text \<open>\<^verbatim>\<open>binascii.hexlify(bs).decode()\<close>: two lower-case digits per byte.\<close>

fun hexlify :: "byte list \<Rightarrow> string" where
  "hexlify [] = []"
| "hexlify (b # bs) = hexdigit (unat b div 16) # hexdigit (unat b mod 16) # hexlify bs"

definition hexval :: "char \<Rightarrow> nat option" where
  "hexval c = map_of
     [(CHR ''0'', 0), (CHR ''1'', 1), (CHR ''2'', 2), (CHR ''3'', 3), (CHR ''4'', 4),
      (CHR ''5'', 5), (CHR ''6'', 6), (CHR ''7'', 7), (CHR ''8'', 8), (CHR ''9'', 9),
      (CHR ''a'', 10), (CHR ''b'', 11), (CHR ''c'', 12), (CHR ''d'', 13), (CHR ''e'', 14),
      (CHR ''f'', 15),
      (CHR ''A'', 10), (CHR ''B'', 11), (CHR ''C'', 12), (CHR ''D'', 13), (CHR ''E'', 14),
      (CHR ''F'', 15)] c"

text \<open>Pairs of hexadecimal digits (either case) to bytes; anything else is rejected.\<close>

fun fromhex :: "string \<Rightarrow> byte list option" where
  "fromhex [] = Some []"
| "fromhex [c] = None"
| "fromhex (c # d # cs) =
     (case hexval c of
        None \<Rightarrow> None
      | Some h \<Rightarrow>
          (case hexval d of
             None \<Rightarrow> None
           | Some l \<Rightarrow> map_option ((#) (word_of_nat (16 * h + l))) (fromhex cs)))"

text \<open>
  \<^verbatim>\<open>bson.ObjectId(s)\<close> for a string \<open>s\<close>, by the library's documented contract: a string
  of 24 hexadecimal digits is an id, every other string raises \<^verbatim>\<open>InvalidId\<close> (\<open>None\<close>).
  The theorems below speak of the result of \<open>ObjectId\<close>, not of the shape of the string.
\<close>

definition ObjectId :: "string \<Rightarrow> objid option" where
  "ObjectId s = (if length s = 24 then fromhex s else None)"

text \<open>
  \<^verbatim>\<open>str(x)\<close> on the values the program applies it to: an ObjectId prints as its 24
  hexadecimal digits, a string as itself, \<^verbatim>\<open>None\<close> as \<open>''None''\<close>. The program calls
  \<^verbatim>\<open>str\<close> on the \<^verbatim>\<open>_id\<close> of a document only; the printed form of a number, a
  time stamp or a container is left unspecified.
\<close>

fun py_str :: "pyval \<Rightarrow> string" where
  "py_str (POid i) = hexlify i"
| "py_str (PStr s) = s"
| "py_str PNone = ''None''"
| "py_str (PBool b) = (if b then ''True'' else ''False'')"

section \<open>Utilities of main.py\<close>

text \<open>
  \<^verbatim>\<open>
  def to_str_id(obj):
      if isinstance(obj, dict) and obj.get("_id"):
          obj["id"] = str(obj.pop("_id"))
      return obj
  \<close>
  The argument is a fresh dictionary returned by the driver, so the mutation is local.
\<close>

fun to_str_id :: "pyval \<Rightarrow> pyval" where
  "to_str_id (PDict d) =
     (if truthy (dict_get d ''_id'')
      then PDict (AList.update ''id'' (PStr (py_str (dict_get d ''_id''))) (AList.delete ''_id'' d))
      else PDict d)"
| "to_str_id v = v"

definition serialize_list :: "doc list \<Rightarrow> pyval list" where
  "serialize_list items = map (\<lambda>i. to_str_id (PDict i)) items"

text \<open>
  \<^verbatim>\<open>
  def oid(id_str):
      try: return ObjectId(id_str)
      except Exception: raise HTTPException(status_code=400, detail="Invalid id")
  \<close>
\<close>

definition oid :: "string \<Rightarrow> http_error + objid" where
  "oid id_str = (case ObjectId id_str of None \<Rightarrow> Inl BadRequest | Some i \<Rightarrow> Inr i)"

section \<open>The store\<close>

text \<open>An equality filter: every listed field has the listed value.\<close>

definition matches :: "doc \<Rightarrow> doc \<Rightarrow> bool" where
  "matches query d = list_all (\<lambda>kv. map_of d (fst kv) = Some (snd kv)) query"

text \<open>\<^verbatim>\<open>db[coll].find_one(query)\<close> of the driver: the first matching document, or None.\<close>

definition find_one :: "string \<Rightarrow> doc \<Rightarrow> store \<Rightarrow> doc option" where
  "find_one coll query db = find (matches query) (db coll)"

text \<open>
  Modelled from the spec: \<^verbatim>\<open>database.get_documents\<close> is imported by \<^verbatim>\<open>main.py\<close> and is
  not among the source files. "Returns all records matching an equality filter
  (mapping from field name to expected value), with no pagination, sort order, or
  limit: callers receive the full matching set in store-native order."
\<close>

definition get_documents :: "string \<Rightarrow> doc \<Rightarrow> store \<Rightarrow> doc list" where
  "get_documents coll flt db = filter (matches flt) (db coll)"

text \<open>
  Modelled from the spec: \<^verbatim>\<open>database.create_document\<close> is imported by \<^verbatim>\<open>main.py\<close> and
  is not among the source files. "Inserts a record into the named collection and
  returns its newly assigned internal id as a string." The id the store assigns is an
  input \<open>new_id\<close> of the model; the result is the id's string and the new store.
\<close>

definition create_document :: "string \<Rightarrow> doc \<Rightarrow> objid \<Rightarrow> store \<Rightarrow> string \<times> store" where
  "create_document coll data new_id db =
     (hexlify new_id, db(coll := db coll @ [AList.update ''_id'' (POid new_id) data]))"

section \<open>Entity schemas (schemas.py)\<close>

text \<open>
  A request body is a JSON object. For each field of the schema the body either lacks
  the key, holds \<^verbatim>\<open>null\<close>, or holds a value; the model takes the value at the JSON type
  of the field (a string for \<^verbatim>\<open>str\<close>, an integer for \<^verbatim>\<open>int\<close>, a parsed time stamp for
  \<^verbatim>\<open>datetime\<close>), so pydantic's conversions between JSON types are outside it. Keys that
  the schema does not name are ignored by pydantic and are not part of the body here.
\<close>

datatype 'a field = Absent | Null | Given 'a

text \<open>\<^verbatim>\<open>x: T = Field(...)\<close>: required, and \<^verbatim>\<open>null\<close> is not a \<open>T\<close>.\<close>

fun required :: "'a field \<Rightarrow> 'a option" where
  "required (Given x) = Some x"
| "required Absent = None"
| "required Null = None"

text \<open>\<^verbatim>\<open>x: T = Field(d)\<close>: the default when the key is absent; \<^verbatim>\<open>null\<close> is not a \<open>T\<close>.\<close>

fun defaulted :: "'a \<Rightarrow> 'a field \<Rightarrow> 'a option" where
  "defaulted d Absent = Some d"
| "defaulted d Null = None"
| "defaulted d (Given x) = Some x"

text \<open>\<^verbatim>\<open>x: Optional[T] = Field(d)\<close>: never fails; \<^verbatim>\<open>null\<close> is \<^verbatim>\<open>None\<close>.\<close>

fun optional :: "'a option \<Rightarrow> 'a field \<Rightarrow> 'a option" where
  "optional d Absent = d"
| "optional d Null = None"
| "optional d (Given x) = Some x"

text \<open>\<^verbatim>\<open>x: Literal[...] = Field(d)\<close>: a given value must be one of the listed strings.\<close>

fun literal :: "string list \<Rightarrow> string \<Rightarrow> string field \<Rightarrow> string option" where
  "literal allowed d Absent = Some d"
| "literal allowed d Null = None"
| "literal allowed d (Given s) = (if s \<in> set allowed then Some s else None)"

text \<open>\<^verbatim>\<open>x: int = Field(d, ge=lo, le=hi)\<close>: a given value must lie in the range.\<close>

fun ranged :: "int \<Rightarrow> int \<Rightarrow> int \<Rightarrow> int field \<Rightarrow> int option" where
  "ranged lo hi d Absent = Some d"
| "ranged lo hi d Null = None"
| "ranged lo hi d (Given n) = (if lo \<le> n \<and> n \<le> hi then Some n else None)"

subsection \<open>Tournament\<close>

record tournament_body =
  tb_title :: "string field"
  tb_description :: "string field"
  tb_game :: "string field"
  tb_mode :: "string field"
  tb_prize_pool :: "string field"
  tb_entry_fee :: "string field"
  tb_max_participants :: "int field"
  tb_starts_at :: "int field"
  tb_rules :: "string field"
  tb_status :: "string field"
  tb_banner_url :: "string field"
  tb_region :: "string field"
  tb_share_code :: "string field"

record Tournament =
  t_title :: string
  t_description :: "string option"
  t_game :: string
  t_mode :: string
  t_prize_pool :: "string option"
  t_entry_fee :: "string option"
  t_max_participants :: int
  t_starts_at :: "int option"
  t_rules :: "string option"
  t_status :: string
  t_banner_url :: "string option"
  t_region :: "string option"
  t_share_code :: "string option"

definition validate_tournament :: "tournament_body \<Rightarrow> http_error + Tournament" where
  "validate_tournament b =
     (case required (tb_title b) of
        None \<Rightarrow> Inl ValidationError
      | Some title \<Rightarrow>
     (case defaulted ''Free Fire Max'' (tb_game b) of
        None \<Rightarrow> Inl ValidationError
      | Some game \<Rightarrow>
     (case literal [''Solo'', ''Duo'', ''Squad''] ''Squad'' (tb_mode b) of
        None \<Rightarrow> Inl ValidationError
      | Some mode \<Rightarrow>
     (case ranged 1 1000 48 (tb_max_participants b) of
        None \<Rightarrow> Inl ValidationError
      | Some maxp \<Rightarrow>
     (case literal [''upcoming'', ''ongoing'', ''completed''] ''upcoming'' (tb_status b) of
        None \<Rightarrow> Inl ValidationError
      | Some status \<Rightarrow>
          Inr \<lparr> t_title = title,
                t_description = optional None (tb_description b),
                t_game = game,
                t_mode = mode,
                t_prize_pool = optional None (tb_prize_pool b),
                t_entry_fee = optional None (tb_entry_fee b),
                t_max_participants = maxp,
                t_starts_at = optional None (tb_starts_at b),
                t_rules = optional None (tb_rules b),
                t_status = status,
                t_banner_url = optional None (tb_banner_url b),
                t_region = optional (Some ''Global'') (tb_region b),
                t_share_code = optional None (tb_share_code b) \<rparr>)))))"

fun opt_str :: "string option \<Rightarrow> pyval" where
  "opt_str None = PNone"
| "opt_str (Some s) = PStr s"

fun opt_datetime :: "int option \<Rightarrow> pyval" where
  "opt_datetime None = PNone"
| "opt_datetime (Some t) = PDatetime t"

text \<open>\<^verbatim>\<open>payload.model_dump()\<close>: every field of the schema, in declaration order.\<close>

definition model_dump_tournament :: "Tournament \<Rightarrow> doc" where
  "model_dump_tournament t =
     [(''title'', PStr (t_title t)),
      (''description'', opt_str (t_description t)),
      (''game'', PStr (t_game t)),
      (''mode'', PStr (t_mode t)),
      (''prize_pool'', opt_str (t_prize_pool t)),
      (''entry_fee'', opt_str (t_entry_fee t)),
      (''max_participants'', PInt (t_max_participants t)),
      (''starts_at'', opt_datetime (t_starts_at t)),
      (''rules'', opt_str (t_rules t)),
      (''status'', PStr (t_status t)),
      (''banner_url'', opt_str (t_banner_url t)),
      (''region'', opt_str (t_region t)),
      (''share_code'', opt_str (t_share_code t))]"

subsection \<open>Participant\<close>

record participant_body =
  pb_tournament_id :: "string field"
  pb_name :: "string field"
  pb_ign :: "string field"
  pb_team_name :: "string field"
  pb_contact_email :: "string field"
  pb_contact_phone :: "string field"
  pb_region :: "string field"
  pb_notes :: "string field"

record Participant =
  p_tournament_id :: string
  p_name :: string
  p_ign :: "string option"
  p_team_name :: "string option"
  p_contact_email :: "string option"
  p_contact_phone :: "string option"
  p_region :: "string option"
  p_notes :: "string option"

definition validate_participant :: "participant_body \<Rightarrow> http_error + Participant" where
  "validate_participant b =
     (case required (pb_tournament_id b) of
        None \<Rightarrow> Inl ValidationError
      | Some tid \<Rightarrow>
     (case required (pb_name b) of
        None \<Rightarrow> Inl ValidationError
      | Some name \<Rightarrow>
          Inr \<lparr> p_tournament_id = tid,
                p_name = name,
                p_ign = optional None (pb_ign b),
                p_team_name = optional None (pb_team_name b),
                p_contact_email = optional None (pb_contact_email b),
                p_contact_phone = optional None (pb_contact_phone b),
                p_region = optional None (pb_region b),
                p_notes = optional None (pb_notes b) \<rparr>))"

definition model_dump_participant :: "Participant \<Rightarrow> doc" where
  "model_dump_participant p =
     [(''tournament_id'', PStr (p_tournament_id p)),
      (''name'', PStr (p_name p)),
      (''ign'', opt_str (p_ign p)),
      (''team_name'', opt_str (p_team_name p)),
      (''contact_email'', opt_str (p_contact_email p)),
      (''contact_phone'', opt_str (p_contact_phone p)),
      (''region'', opt_str (p_region p)),
      (''notes'', opt_str (p_notes p))]"

subsection \<open>Match\<close>

record match_body =
  mb_tournament_id :: "string field"
  mb_round_name :: "string field"
  mb_map_name :: "string field"
  mb_scheduled_at :: "int field"
  mb_room_id :: "string field"
  mb_room_password :: "string field"
  mb_status :: "string field"
  mb_participants :: "string list field"
  mb_result :: "doc field"

record Match =
  m_tournament_id :: string
  m_round_name :: string
  m_map_name :: "string option"
  m_scheduled_at :: "int option"
  m_room_id :: "string option"
  m_room_password :: "string option"
  m_status :: string
  m_participants :: "string list option"
  m_result :: "doc option"

definition validate_match :: "match_body \<Rightarrow> http_error + Match" where
  "validate_match b =
     (case required (mb_tournament_id b) of
        None \<Rightarrow> Inl ValidationError
      | Some tid \<Rightarrow>
     (case required (mb_round_name b) of
        None \<Rightarrow> Inl ValidationError
      | Some round \<Rightarrow>
     (case literal [''scheduled'', ''live'', ''completed''] ''scheduled'' (mb_status b) of
        None \<Rightarrow> Inl ValidationError
      | Some status \<Rightarrow>
          Inr \<lparr> m_tournament_id = tid,
                m_round_name = round,
                m_map_name = optional None (mb_map_name b),
                m_scheduled_at = optional None (mb_scheduled_at b),
                m_room_id = optional None (mb_room_id b),
                m_room_password = optional None (mb_room_password b),
                m_status = status,
                m_participants = optional None (mb_participants b),
                m_result = optional None (mb_result b) \<rparr>)))"

fun opt_str_list :: "string list option \<Rightarrow> pyval" where
  "opt_str_list None = PNone"
| "opt_str_list (Some xs) = PList (map PStr xs)"

fun opt_dict :: "doc option \<Rightarrow> pyval" where
  "opt_dict None = PNone"
| "opt_dict (Some d) = PDict d"

definition model_dump_match :: "Match \<Rightarrow> doc" where
  "model_dump_match m =
     [(''tournament_id'', PStr (m_tournament_id m)),
      (''round_name'', PStr (m_round_name m)),
      (''map_name'', opt_str (m_map_name m)),
      (''scheduled_at'', opt_datetime (m_scheduled_at m)),
      (''room_id'', opt_str (m_room_id m)),
      (''room_password'', opt_str (m_room_password m)),
      (''status'', PStr (m_status m)),
      (''participants'', opt_str_list (m_participants m)),
      (''result'', opt_dict (m_result m))]"

section \<open>The endpoints of main.py\<close>

text \<open>
  A handler that raises \<^verbatim>\<open>HTTPException\<close> returns \<open>Inl\<close> of the error. A handler that
  writes returns the store as it leaves it. What the environment chooses is an
  argument: the ObjectId the store assigns to an inserted document (\<open>new_id\<close>), the
  bytes \<^verbatim>\<open>secrets\<close> draws (\<open>rnd\<close>), the \<^verbatim>\<open>FRONTEND_URL\<close> setting.
\<close>

text \<open>
  The expression every resolving handler repeats:
  \<^verbatim>\<open>{"_id": oid(tournament_id)} if len(tournament_id) == 24 else {"share_code": tournament_id}\<close>
\<close>

definition tournament_query :: "string \<Rightarrow> http_error + doc" where
  "tournament_query tournament_id =
     (if length tournament_id = 24
      then (case oid tournament_id of
              Inl e \<Rightarrow> Inl e
            | Inr i \<Rightarrow> Inr [(''_id'', POid i)])
      else Inr [(''share_code'', PStr tournament_id)])"

text \<open>The value of \<^verbatim>\<open>find_one\<close> as a Python value: a dict, or None.\<close>

fun found :: "doc option \<Rightarrow> pyval" where
  "found None = PNone"
| "found (Some d) = PDict d"

text \<open>\<^verbatim>\<open>secrets.token_hex(n)\<close> is the hexadecimal string of \<open>n\<close> random bytes.\<close>

definition token_hex :: "byte list \<Rightarrow> string" where
  "token_hex rnd = hexlify rnd"

definition list_tournaments :: "store \<Rightarrow> pyval list" where
  "list_tournaments db = serialize_list (get_documents ''tournament'' [] db)"

text \<open>
  \<^verbatim>\<open>
  def create_tournament(payload):
      data = payload.model_dump()
      data["share_code"] = data.get("share_code") or secrets.token_hex(3)
      new_id = create_document("tournament", data)
      doc = db["tournament"].find_one({"_id": ObjectId(new_id)})
      return to_str_id(doc)
  \<close>
  \<^verbatim>\<open>ObjectId(new_id)\<close> is not guarded: a string it rejects is an unhandled exception.
\<close>

definition create_tournament ::
  "Tournament \<Rightarrow> byte list \<Rightarrow> objid \<Rightarrow> store \<Rightarrow> (http_error + pyval) \<times> store" where
  "create_tournament payload rnd new_id db =
     (let data = model_dump_tournament payload;
          code = (if truthy (dict_get data ''share_code'')
                  then dict_get data ''share_code''
                  else PStr (token_hex rnd));
          data = AList.update ''share_code'' code data;
          (new_str, db') = create_document ''tournament'' data new_id db
      in case ObjectId new_str of
           None \<Rightarrow> (Inl Unhandled, db')
         | Some i \<Rightarrow>
             (Inr (to_str_id (found (find_one ''tournament'' [(''_id'', POid i)] db'))), db'))"

text \<open>
  \<^verbatim>\<open>
  def get_tournament(tournament_id):
      query = {"_id": oid(tournament_id)} if len(tournament_id) == 24 else {"share_code": tournament_id}
      doc = db["tournament"].find_one(query)
      if not doc:
          raise HTTPException(status_code=404, detail="Tournament not found")
      return to_str_id(doc)
  \<close>
  \<^verbatim>\<open>not doc\<close> holds of None and of the empty dict.
\<close>

definition get_tournament :: "string \<Rightarrow> store \<Rightarrow> http_error + pyval" where
  "get_tournament tournament_id db =
     (case tournament_query tournament_id of
        Inl e \<Rightarrow> Inl e
      | Inr query \<Rightarrow>
          (case find_one ''tournament'' query db of
             None \<Rightarrow> Inl NotFound
           | Some doc \<Rightarrow> if doc = [] then Inl NotFound else Inr (to_str_id (PDict doc))))"

text \<open>
  \<^verbatim>\<open>
  def register_participant(tournament_id, payload):
      t_query = ... ; t = db["tournament"].find_one(t_query)
      if not t: raise HTTPException(status_code=404, ...)
      data = payload.model_dump()
      data["tournament_id"] = str(t.get("_id"))
      new_id = create_document("participant", data)
      doc = db["participant"].find_one({"_id": ObjectId(new_id)})
      return to_str_id(doc)
  \<close>
\<close>

definition register_participant ::
  "string \<Rightarrow> Participant \<Rightarrow> objid \<Rightarrow> store \<Rightarrow> (http_error + pyval) \<times> store" where
  "register_participant tournament_id payload new_id db =
     (case tournament_query tournament_id of
        Inl e \<Rightarrow> (Inl e, db)
      | Inr t_query \<Rightarrow>
          (case find_one ''tournament'' t_query db of
             None \<Rightarrow> (Inl NotFound, db)
           | Some t \<Rightarrow>
               if t = [] then (Inl NotFound, db)
               else
                 (let data = model_dump_participant payload;
                      data = AList.update ''tournament_id'' (PStr (py_str (dict_get t ''_id''))) data;
                      (new_str, db') = create_document ''participant'' data new_id db
                  in case ObjectId new_str of
                       None \<Rightarrow> (Inl Unhandled, db')
                     | Some i \<Rightarrow>
                         (Inr (to_str_id (found (find_one ''participant'' [(''_id'', POid i)] db'))),
                          db'))))"

text \<open>
  \<^verbatim>\<open>
  def list_participants(tournament_id):
      t_id = tournament_id if len(tournament_id) == 24 else None
      if not t_id:
          t = db["tournament"].find_one({"share_code": tournament_id})
          if not t: raise HTTPException(status_code=404, ...)
          t_id = str(t.get("_id"))
      items = get_documents("participant", {"tournament_id": t_id})
      return serialize_list(items)
  \<close>
  A string of length 24 is truthy, so the tournament is looked up exactly when the
  length is not 24.
\<close>

definition list_participants :: "string \<Rightarrow> store \<Rightarrow> http_error + pyval list" where
  "list_participants tournament_id db =
     (if length tournament_id = 24
      then Inr (serialize_list
                  (get_documents ''participant'' [(''tournament_id'', PStr tournament_id)] db))
      else
        (case find_one ''tournament'' [(''share_code'', PStr tournament_id)] db of
           None \<Rightarrow> Inl NotFound
         | Some t \<Rightarrow>
             if t = [] then Inl NotFound
             else Inr (serialize_list
                         (get_documents ''participant''
                            [(''tournament_id'', PStr (py_str (dict_get t ''_id'')))] db))))"

definition create_match ::
  "string \<Rightarrow> Match \<Rightarrow> objid \<Rightarrow> store \<Rightarrow> (http_error + pyval) \<times> store" where
  "create_match tournament_id payload new_id db =
     (case tournament_query tournament_id of
        Inl e \<Rightarrow> (Inl e, db)
      | Inr t_query \<Rightarrow>
          (case find_one ''tournament'' t_query db of
             None \<Rightarrow> (Inl NotFound, db)
           | Some t \<Rightarrow>
               if t = [] then (Inl NotFound, db)
               else
                 (let data = model_dump_match payload;
                      data = AList.update ''tournament_id'' (PStr (py_str (dict_get t ''_id''))) data;
                      (new_str, db') = create_document ''match'' data new_id db
                  in case ObjectId new_str of
                       None \<Rightarrow> (Inl Unhandled, db')
                     | Some i \<Rightarrow>
                         (Inr (to_str_id (found (find_one ''match'' [(''_id'', POid i)] db'))),
                          db'))))"

definition list_matches :: "string \<Rightarrow> store \<Rightarrow> http_error + pyval list" where
  "list_matches tournament_id db =
     (if length tournament_id = 24
      then Inr (serialize_list
                  (get_documents ''match'' [(''tournament_id'', PStr tournament_id)] db))
      else
        (case find_one ''tournament'' [(''share_code'', PStr tournament_id)] db of
           None \<Rightarrow> Inl NotFound
         | Some t \<Rightarrow>
             if t = [] then Inl NotFound
             else Inr (serialize_list
                         (get_documents ''match''
                            [(''tournament_id'', PStr (py_str (dict_get t ''_id'')))] db))))"

record ShareLinkResponse =
  share_url :: string
  code :: string

text \<open>
  \<^verbatim>\<open>
  def get_share_link(tournament_id):
      ... code = t.get("share_code")
      frontend_origin = os.getenv("FRONTEND_URL", "http://localhost:3000")
      return ShareLinkResponse(share_url=f"{frontend_origin}/?t={code}", code=code)
  \<close>
  Both fields of the response are \<^verbatim>\<open>str\<close>: a \<^verbatim>\<open>code\<close> that is not a string fails the
  response model inside the handler, which nothing catches.
\<close>

definition get_share_link :: "string \<Rightarrow> string \<Rightarrow> store \<Rightarrow> http_error + ShareLinkResponse" where
  "get_share_link tournament_id frontend_origin db =
     (case tournament_query tournament_id of
        Inl e \<Rightarrow> Inl e
      | Inr query \<Rightarrow>
          (case find_one ''tournament'' query db of
             None \<Rightarrow> Inl NotFound
           | Some t \<Rightarrow>
               if t = [] then Inl NotFound
               else (case dict_get t ''share_code'' of
                       PStr c \<Rightarrow> Inr \<lparr> share_url = frontend_origin @ ''/?t='' @ c, code = c \<rparr>
                     | _ \<Rightarrow> Inl Unhandled)))"

definition get_by_share_code :: "string \<Rightarrow> store \<Rightarrow> http_error + pyval" where
  "get_by_share_code c db =
     (case find_one ''tournament'' [(''share_code'', PStr c)] db of
        None \<Rightarrow> Inl NotFound
      | Some t \<Rightarrow> if t = [] then Inl NotFound else Inr (to_str_id (PDict t)))"

subsection \<open>Requests with a body\<close>

text \<open>
  The framework validates the body against the handler's parameter type before it
  calls the handler; a body that fails never reaches it.
\<close>

definition post_tournaments ::
  "tournament_body \<Rightarrow> byte list \<Rightarrow> objid \<Rightarrow> store \<Rightarrow> (http_error + pyval) \<times> store" where
  "post_tournaments body rnd new_id db =
     (case validate_tournament body of
        Inl e \<Rightarrow> (Inl e, db)
      | Inr payload \<Rightarrow> create_tournament payload rnd new_id db)"

definition post_register ::
  "string \<Rightarrow> participant_body \<Rightarrow> objid \<Rightarrow> store \<Rightarrow> (http_error + pyval) \<times> store" where
  "post_register tournament_id body new_id db =
     (case validate_participant body of
        Inl e \<Rightarrow> (Inl e, db)
      | Inr payload \<Rightarrow> register_participant tournament_id payload new_id db)"

definition post_matches ::
  "string \<Rightarrow> match_body \<Rightarrow> objid \<Rightarrow> store \<Rightarrow> (http_error + pyval) \<times> store" where
  "post_matches tournament_id body new_id db =
     (case validate_match body of
        Inl e \<Rightarrow> (Inl e, db)
      | Inr payload \<Rightarrow> create_match tournament_id payload new_id db)"

subsection \<open>The application as a whole\<close>

datatype request =
    GetRoot
  | GetTest
  | ListTournaments
  | PostTournament tournament_body "byte list" objid
  | GetTournament string
  | PostRegister string participant_body objid
  | GetParticipants string
  | PostMatch string match_body objid
  | GetMatches string
  | GetShare string string
  | GetByShareCode string

datatype response =
    Message doc
  | Diagnostic
  | Record "http_error + pyval"
  | Records "http_error + pyval list"
  | ShareLink "http_error + ShareLinkResponse"

text \<open>
  One request against the store. \<^verbatim>\<open>GET /test\<close> reads the collection names and the
  configuration only; the text of its report is not modelled.
\<close>

fun serve :: "request \<Rightarrow> store \<Rightarrow> response \<times> store" where
  "serve GetRoot db = (Message [(''message'', PStr ''Free Fire Max Tournament API running'')], db)"
| "serve GetTest db = (Diagnostic, db)"
| "serve ListTournaments db = (Records (Inr (list_tournaments db)), db)"
| "serve (PostTournament body rnd new_id) db =
     (case post_tournaments body rnd new_id db of (r, db') \<Rightarrow> (Record r, db'))"
| "serve (GetTournament tid) db = (Record (get_tournament tid db), db)"
| "serve (PostRegister tid body new_id) db =
     (case post_register tid body new_id db of (r, db') \<Rightarrow> (Record r, db'))"
| "serve (GetParticipants tid) db = (Records (list_participants tid db), db)"
| "serve (PostMatch tid body new_id) db =
     (case post_matches tid body new_id db of (r, db') \<Rightarrow> (Record r, db'))"
| "serve (GetMatches tid) db = (Records (list_matches tid db), db)"
| "serve (GetShare tid origin) db = (ShareLink (get_share_link tid origin db), db)"
| "serve (GetByShareCode c) db = (Record (get_by_share_code c db), db)"

text \<open>The store after a sequence of requests.\<close>

fun run :: "request list \<Rightarrow> store \<Rightarrow> store" where
  "run [] db = db"
| "run (r # rs) db = run rs (snd (serve r db))"

section \<open>Properties of documents and stores\<close>

text \<open>A document as the store holds it: its \<^verbatim>\<open>_id\<close> is an ObjectId of 12 bytes.\<close>

definition stored :: "doc \<Rightarrow> bool" where
  "stored d = (case map_of d ''_id'' of Some (POid i) \<Rightarrow> length i = 12 | _ \<Rightarrow> False)"

text \<open>No document of the collection has the id \<open>i\<close>.\<close>

definition fresh :: "objid \<Rightarrow> doc list \<Rightarrow> bool" where
  "fresh i ds = list_all (\<lambda>d. map_of d ''_id'' \<noteq> Some (POid i)) ds"

text \<open>No document of the collection has the share code \<open>c\<close>.\<close>

definition no_code :: "string \<Rightarrow> doc list \<Rightarrow> bool" where
  "no_code c ds = list_all (\<lambda>d. map_of d ''share_code'' \<noteq> Some (PStr c)) ds"

text \<open>A field of a returned value: the value under the key when it is a dict.\<close>

fun pyget :: "pyval \<Rightarrow> string \<Rightarrow> pyval option" where
  "pyget (PDict d) k = map_of d k"
| "pyget v k = None"

text \<open>
  \<open>r\<close> is the public form of the stored document \<open>d\<close>: a dict whose \<^verbatim>\<open>id\<close> is the
  string of \<open>d\<close>'s ObjectId and that has no \<^verbatim>\<open>_id\<close>.
\<close>

definition public_of :: "doc \<Rightarrow> pyval \<Rightarrow> bool" where
  "public_of d r =
     (case map_of d ''_id'' of
        Some (POid i) \<Rightarrow> pyget r ''id'' = Some (PStr (hexlify i)) \<and> pyget r ''_id'' = None
      | _ \<Rightarrow> False)"

definition is_hex :: "string \<Rightarrow> bool" where
  "is_hex s = list_all (\<lambda>c. c \<in> set ''0123456789abcdef'') s"

subsection \<open>Sample data\<close>

definition sample_id :: objid where
  "sample_id = [0xAA, 0xAA, 0xAA, 0xAA, 0xAA, 0xAA, 0xAA, 0xAA, 0xAA, 0xAA, 0xAA, 0xAA]"

definition zero_id :: objid where
  "zero_id = [0, 0, 0, 0, 0, 0, 0, 0, 0, 0, 0, 0]"

definition other_id :: objid where
  "other_id = [0x65, 0x4F, 0x01, 0x02, 0x03, 0x04, 0x05, 0x06, 0x07, 0x08, 0x09, 0x0A]"

text \<open>The body \<^verbatim>\<open>{"title": "Squad Cup", "mode": "Squad"}\<close>.\<close>

definition sample_body :: tournament_body where
  "sample_body =
     \<lparr> tb_title = Given ''Squad Cup'', tb_description = Absent, tb_game = Absent,
       tb_mode = Given ''Squad'', tb_prize_pool = Absent, tb_entry_fee = Absent,
       tb_max_participants = Absent, tb_starts_at = Absent, tb_rules = Absent,
       tb_status = Absent, tb_banner_url = Absent, tb_region = Absent,
       tb_share_code = Absent \<rparr>"

text \<open>The tournament that body creates, as the store holds it with the code \<^verbatim>\<open>abc123\<close>.\<close>

definition sample_tournament :: doc where
  "sample_tournament =
     [(''title'', PStr ''Squad Cup''), (''description'', PNone),
      (''game'', PStr ''Free Fire Max''), (''mode'', PStr ''Squad''),
      (''prize_pool'', PNone), (''entry_fee'', PNone), (''max_participants'', PInt 48),
      (''starts_at'', PNone), (''rules'', PNone), (''status'', PStr ''upcoming''),
      (''banner_url'', PNone), (''region'', PStr ''Global''),
      (''share_code'', PStr ''abc123''), (''_id'', POid sample_id)]"

definition sample_participant_body :: participant_body where
  "sample_participant_body =
     \<lparr> pb_tournament_id = Given ''anything'', pb_name = Given ''Asha'', pb_ign = Absent,
       pb_team_name = Absent, pb_contact_email = Absent, pb_contact_phone = Absent,
       pb_region = Absent, pb_notes = Absent \<rparr>"

definition sample_participant :: Participant where
  "sample_participant =
     \<lparr> p_tournament_id = ''anything'', p_name = ''Asha'', p_ign = None, p_team_name = None,
       p_contact_email = None, p_contact_phone = None, p_region = None, p_notes = None \<rparr>"

definition sample_match_body :: match_body where
  "sample_match_body =
     \<lparr> mb_tournament_id = Given ''anything'', mb_round_name = Given ''Finals'',
       mb_map_name = Absent, mb_scheduled_at = Absent, mb_room_id = Absent,
       mb_room_password = Absent, mb_status = Absent, mb_participants = Absent,
       mb_result = Absent \<rparr>"

definition sample_match :: Match where
  "sample_match =
     \<lparr> m_tournament_id = ''anything'', m_round_name = ''Finals'', m_map_name = None,
       m_scheduled_at = None, m_room_id = None, m_room_password = None,
       m_status = ''scheduled'', m_participants = None, m_result = None \<rparr>"

text \<open>The body \<^verbatim>\<open>{"title": "Squad Cup", "mode": "Trio"}\<close>.\<close>

definition trio_body :: tournament_body where
  "trio_body = sample_body \<lparr> tb_mode := Given ''Trio'' \<rparr>"

definition nameless_body :: participant_body where
  "nameless_body = sample_participant_body \<lparr> pb_name := Absent \<rparr>"

definition paused_body :: match_body where
  "paused_body = sample_match_body \<lparr> mb_status := Given ''paused'' \<rparr>"

definition empty_store :: store where
  "empty_store = (\<lambda>_. [])"

definition sample_store :: store where
  "sample_store = empty_store(''tournament'' := [sample_tournament])"

section \<open>Hexadecimal strings and ids\<close>

lemma hexval_hexdigit: "n < 16 \<Longrightarrow> hexval (hexdigit n) = Some n"
proof -
  assume "n < 16"
  then have "n \<in> set [0..<16]" by simp
  then show ?thesis
    unfolding hexval_def hexdigit_def
    by (simp add: upt_rec numeral_eq_Suc[symmetric]) (elim disjE; simp)
qed

lemma length_hexlify: "length (hexlify bs) = 2 * length bs"
  by (induction bs) auto

lemma fromhex_hexlify: "fromhex (hexlify bs) = Some bs"
proof (induction bs)
  case Nil
  show ?case by simp
next
  case (Cons b bs)
  have d: "unat b div 16 < 16"
    using unsigned_less[of b] by (simp add: div_less_iff_less_mult)
  have m: "unat b mod 16 < 16" by simp
  have "word_of_nat (16 * (unat b div 16) + unat b mod 16) = b" by simp
  with Cons d m show ?case by (simp add: hexval_hexdigit)
qed

lemma ObjectId_hexlify: "length i = 12 \<Longrightarrow> ObjectId (hexlify i) = Some i"
  by (simp add: ObjectId_def length_hexlify fromhex_hexlify)

section \<open>Looking documents up\<close>

lemma matches_single: "matches [(k, v)] d = (map_of d k = Some v)"
  by (simp add: matches_def)

lemma find_one_id_None: "fresh i (db c) \<Longrightarrow> find_one c [(''_id'', POid i)] db = None"
  by (simp add: find_one_def fresh_def find_None_iff matches_single list_all_iff)

lemma find_one_code_None: "no_code s (db c) \<Longrightarrow> find_one c [(''share_code'', PStr s)] db = None"
  by (simp add: find_one_def no_code_def find_None_iff matches_single list_all_iff)

lemma ObjectId_zeros: "ObjectId ''000000000000000000000000'' = Some zero_id"
  by (simp add: ObjectId_def hexval_def zero_id_def)

section \<open>Failures of resolution\<close>

text \<open>
  C6. Fetching a tournament tells two failures apart. A reference of 24 characters
  that \<open>ObjectId\<close> rejects fails with BadRequest. A reference that is well formed (24
  characters that parse as an id, or a string of another length, read as a share code)
  and matches no tournament fails with NotFound. In particular the reference of 24
  zeros, in a store where no tournament has that id, fails with NotFound.
\<close>

theorem get_tournament_failures:
  "(length tid = 24 \<and> ObjectId tid = None \<longrightarrow> get_tournament tid db = Inl BadRequest)
   \<and> (length tid = 24 \<and> ObjectId tid = Some i \<and> fresh i (db ''tournament'')
        \<longrightarrow> get_tournament tid db = Inl NotFound)
   \<and> (length tid \<noteq> 24 \<and> no_code tid (db ''tournament'')
        \<longrightarrow> get_tournament tid db = Inl NotFound)
   \<and> (fresh zero_id (db ''tournament'')
        \<longrightarrow> get_tournament ''000000000000000000000000'' db = Inl NotFound)"
  by (simp add: get_tournament_def tournament_query_def oid_def find_one_id_None
      find_one_code_None ObjectId_zeros)

theorem get_tournament_failures_witness:
  "length ''zzzzzzzzzzzzzzzzzzzzzzzz'' = 24 \<and> ObjectId ''zzzzzzzzzzzzzzzzzzzzzzzz'' = None
   \<and> get_tournament ''zzzzzzzzzzzzzzzzzzzzzzzz'' sample_store = Inl BadRequest
   \<and> length ''654f0102030405060708090a'' = 24
   \<and> ObjectId ''654f0102030405060708090a'' = Some other_id
   \<and> fresh other_id (sample_store ''tournament'')
   \<and> get_tournament ''654f0102030405060708090a'' sample_store = Inl NotFound
   \<and> length ''nocode'' \<noteq> 24 \<and> no_code ''nocode'' (sample_store ''tournament'')
   \<and> get_tournament ''nocode'' sample_store = Inl NotFound
   \<and> fresh zero_id (sample_store ''tournament'')
   \<and> get_tournament ''000000000000000000000000'' sample_store = Inl NotFound"
proof -
  have a: "length ''zzzzzzzzzzzzzzzzzzzzzzzz'' = 24 \<and> ObjectId ''zzzzzzzzzzzzzzzzzzzzzzzz'' = None"
    by (simp add: ObjectId_def hexval_def)
  have b: "length ''654f0102030405060708090a'' = 24
      \<and> ObjectId ''654f0102030405060708090a'' = Some other_id
      \<and> fresh other_id (sample_store ''tournament'')"
    by (simp add: ObjectId_def hexval_def other_id_def fresh_def sample_store_def
        sample_tournament_def sample_id_def)
  have c: "length ''nocode'' \<noteq> 24 \<and> no_code ''nocode'' (sample_store ''tournament'')"
    by (simp add: no_code_def sample_store_def sample_tournament_def)
  have d: "fresh zero_id (sample_store ''tournament'')"
    by (simp add: fresh_def sample_store_def sample_tournament_def sample_id_def zero_id_def)
  show ?thesis
    using a b c d
      get_tournament_failures [of "''zzzzzzzzzzzzzzzzzzzzzzzz''" sample_store]
      get_tournament_failures [of "''654f0102030405060708090a''" sample_store other_id]
      get_tournament_failures [of "''nocode''" sample_store]
    by simp
qed

text \<open>
  C2, as the code has it. For a reference that matches no tournament (and a body that
  passed validation, for the two handlers that take one): when the reference is not 24
  characters long and no tournament has it as share code, register participant, list
  participants, create match, list matches and get share link all fail with NotFound;
  when it is 24 characters long and parses as an id that no tournament has, register
  participant, create match and get share link fail with NotFound; when it is 24
  characters long and does not parse as an id, these three fail with BadRequest. The
  store is left as it was.
\<close>

theorem dependent_endpoints_failures:
  "(length tid \<noteq> 24 \<and> no_code tid (db ''tournament'') \<longrightarrow>
      register_participant tid p new_id db = (Inl NotFound, db)
      \<and> list_participants tid db = Inl NotFound
      \<and> create_match tid m new_id db = (Inl NotFound, db)
      \<and> list_matches tid db = Inl NotFound
      \<and> get_share_link tid origin db = Inl NotFound)
   \<and> (length tid = 24 \<and> ObjectId tid = Some i \<and> fresh i (db ''tournament'') \<longrightarrow>
      register_participant tid p new_id db = (Inl NotFound, db)
      \<and> create_match tid m new_id db = (Inl NotFound, db)
      \<and> get_share_link tid origin db = Inl NotFound)
   \<and> (length tid = 24 \<and> ObjectId tid = None \<longrightarrow>
      register_participant tid p new_id db = (Inl BadRequest, db)
      \<and> create_match tid m new_id db = (Inl BadRequest, db)
      \<and> get_share_link tid origin db = Inl BadRequest)"
  by (simp add: register_participant_def list_participants_def create_match_def
      list_matches_def get_share_link_def tournament_query_def oid_def find_one_id_None
      find_one_code_None)


theorem dependent_endpoints_failures_witness:
  "length ''nocode'' \<noteq> 24 \<and> no_code ''nocode'' (sample_store ''tournament'')
   \<and> register_participant ''nocode'' sample_participant other_id sample_store
       = (Inl NotFound, sample_store)
   \<and> list_participants ''nocode'' sample_store = Inl NotFound
   \<and> create_match ''nocode'' sample_match other_id sample_store = (Inl NotFound, sample_store)
   \<and> list_matches ''nocode'' sample_store = Inl NotFound
   \<and> get_share_link ''nocode'' ''http://localhost:3000'' sample_store = Inl NotFound
   \<and> length ''654f0102030405060708090a'' = 24
   \<and> ObjectId ''654f0102030405060708090a'' = Some other_id
   \<and> fresh other_id (sample_store ''tournament'')
   \<and> register_participant ''654f0102030405060708090a'' sample_participant other_id sample_store
       = (Inl NotFound, sample_store)
   \<and> create_match ''654f0102030405060708090a'' sample_match other_id sample_store
       = (Inl NotFound, sample_store)
   \<and> get_share_link ''654f0102030405060708090a'' ''http://localhost:3000'' sample_store
       = Inl NotFound
   \<and> length ''zzzzzzzzzzzzzzzzzzzzzzzz'' = 24 \<and> ObjectId ''zzzzzzzzzzzzzzzzzzzzzzzz'' = None
   \<and> register_participant ''zzzzzzzzzzzzzzzzzzzzzzzz'' sample_participant other_id sample_store
       = (Inl BadRequest, sample_store)
   \<and> create_match ''zzzzzzzzzzzzzzzzzzzzzzzz'' sample_match other_id sample_store
       = (Inl BadRequest, sample_store)
   \<and> get_share_link ''zzzzzzzzzzzzzzzzzzzzzzzz'' ''http://localhost:3000'' sample_store
       = Inl BadRequest"
proof -
  have a: "length ''zzzzzzzzzzzzzzzzzzzzzzzz'' = 24 \<and> ObjectId ''zzzzzzzzzzzzzzzzzzzzzzzz'' = None"
    by (simp add: ObjectId_def hexval_def)
  have b: "length ''654f0102030405060708090a'' = 24
      \<and> ObjectId ''654f0102030405060708090a'' = Some other_id
      \<and> fresh other_id (sample_store ''tournament'')"
    by (simp add: ObjectId_def hexval_def other_id_def fresh_def sample_store_def
        sample_tournament_def sample_id_def)
  have c: "length ''nocode'' \<noteq> 24 \<and> no_code ''nocode'' (sample_store ''tournament'')"
    by (simp add: no_code_def sample_store_def sample_tournament_def)
  show ?thesis
    using a b c
      dependent_endpoints_failures [of "''zzzzzzzzzzzzzzzzzzzzzzzz''" sample_store
        sample_participant other_id sample_match "''http://localhost:3000''"]
      dependent_endpoints_failures [of "''654f0102030405060708090a''" sample_store
        sample_participant other_id sample_match "''http://localhost:3000''" other_id]
      dependent_endpoints_failures [of "''nocode''" sample_store
        sample_participant other_id sample_match "''http://localhost:3000''"]
    by simp
qed

text \<open>
  The claim as stated fails: in the empty store no tournament matches the reference of
  24 letters \<open>z\<close>, and get share link, register participant and create match answer
  BadRequest, not NotFound.
\<close>

theorem unmatched_reference_bad_request:
  "empty_store ''tournament'' = []
   \<and> get_share_link ''zzzzzzzzzzzzzzzzzzzzzzzz'' ''http://localhost:3000'' empty_store
       = Inl BadRequest
   \<and> get_share_link ''zzzzzzzzzzzzzzzzzzzzzzzz'' ''http://localhost:3000'' empty_store
       \<noteq> Inl NotFound
   \<and> fst (register_participant ''zzzzzzzzzzzzzzzzzzzzzzzz'' sample_participant other_id
            empty_store) = Inl BadRequest
   \<and> fst (create_match ''zzzzzzzzzzzzzzzzzzzzzzzz'' sample_match other_id empty_store)
       = Inl BadRequest"
  by (simp add: get_share_link_def register_participant_def create_match_def
      tournament_query_def oid_def ObjectId_def hexval_def empty_store_def)

section \<open>The list endpoints and references of 24 characters\<close>

text \<open>
  C1. The six handlers that take a tournament reference do not all resolve it by one
  rule. With a reference of 24 characters, fetch and get share link look the tournament
  up by id (NotFound for an id no tournament has, BadRequest for a string that is not an
  id), while list participants and list matches never consult the tournaments and
  answer with an empty list.
\<close>

theorem list_endpoints_skip_resolution:
  "get_tournament ''000000000000000000000000'' empty_store = Inl NotFound
   \<and> get_share_link ''000000000000000000000000'' ''http://localhost:3000'' empty_store
       = Inl NotFound
   \<and> list_participants ''000000000000000000000000'' empty_store = Inr []
   \<and> list_matches ''000000000000000000000000'' empty_store = Inr []
   \<and> get_tournament ''zzzzzzzzzzzzzzzzzzzzzzzz'' empty_store = Inl BadRequest
   \<and> list_participants ''zzzzzzzzzzzzzzzzzzzzzzzz'' empty_store = Inr []
   \<and> list_matches ''zzzzzzzzzzzzzzzzzzzzzzzz'' empty_store = Inr []"
  by (simp add: get_tournament_def get_share_link_def list_participants_def list_matches_def
      tournament_query_def oid_def ObjectId_def hexval_def empty_store_def find_one_def
      get_documents_def serialize_list_def)

section \<open>Validation of request bodies\<close>

text \<open>
  C8. A body that lacks a required field, gives an enumerated field a value outside
  its set, or gives \<^verbatim>\<open>max_participants\<close> a value outside 1..1000 is answered with
  ValidationError, and the store is unchanged. This holds for the tournament, the
  participant and the match body.
\<close>

theorem invalid_body_rejected:
  "(tb_title b = Absent
      \<or> (\<exists>m. tb_mode b = Given m \<and> m \<notin> set [''Solo'', ''Duo'', ''Squad''])
      \<or> (\<exists>s. tb_status b = Given s \<and> s \<notin> set [''upcoming'', ''ongoing'', ''completed''])
      \<or> (\<exists>n. tb_max_participants b = Given n \<and> (n < 1 \<or> 1000 < n))
    \<longrightarrow> post_tournaments b rnd new_id db = (Inl ValidationError, db))
   \<and> (pb_tournament_id pb = Absent \<or> pb_name pb = Absent
    \<longrightarrow> post_register tid pb new_id db = (Inl ValidationError, db))
   \<and> (mb_tournament_id mb = Absent \<or> mb_round_name mb = Absent
      \<or> (\<exists>s. mb_status mb = Given s \<and> s \<notin> set [''scheduled'', ''live'', ''completed''])
    \<longrightarrow> post_matches tid mb new_id db = (Inl ValidationError, db))"
proof (intro conjI impI)
  assume "tb_title b = Absent
      \<or> (\<exists>m. tb_mode b = Given m \<and> m \<notin> set [''Solo'', ''Duo'', ''Squad''])
      \<or> (\<exists>s. tb_status b = Given s \<and> s \<notin> set [''upcoming'', ''ongoing'', ''completed''])
      \<or> (\<exists>n. tb_max_participants b = Given n \<and> (n < 1 \<or> 1000 < n))"
  then have "validate_tournament b = Inl ValidationError"
    by (auto simp: validate_tournament_def split: option.splits)
  then show "post_tournaments b rnd new_id db = (Inl ValidationError, db)"
    by (simp add: post_tournaments_def)
next
  assume "pb_tournament_id pb = Absent \<or> pb_name pb = Absent"
  then have "validate_participant pb = Inl ValidationError"
    by (auto simp: validate_participant_def split: option.splits)
  then show "post_register tid pb new_id db = (Inl ValidationError, db)"
    by (simp add: post_register_def)
next
  assume "mb_tournament_id mb = Absent \<or> mb_round_name mb = Absent
      \<or> (\<exists>s. mb_status mb = Given s \<and> s \<notin> set [''scheduled'', ''live'', ''completed''])"
  then have "validate_match mb = Inl ValidationError"
    by (auto simp: validate_match_def split: option.splits)
  then show "post_matches tid mb new_id db = (Inl ValidationError, db)"
    by (simp add: post_matches_def)
qed


theorem invalid_body_rejected_witness:
  "tb_mode trio_body = Given ''Trio'' \<and> ''Trio'' \<notin> set [''Solo'', ''Duo'', ''Squad'']
   \<and> post_tournaments trio_body [1, 2, 3] other_id sample_store
       = (Inl ValidationError, sample_store)
   \<and> pb_name nameless_body = Absent
   \<and> post_register ''abc123'' nameless_body other_id sample_store
       = (Inl ValidationError, sample_store)
   \<and> mb_status paused_body = Given ''paused''
   \<and> ''paused'' \<notin> set [''scheduled'', ''live'', ''completed'']
   \<and> post_matches ''abc123'' paused_body other_id sample_store
       = (Inl ValidationError, sample_store)"
proof -
  have a: "tb_mode trio_body = Given ''Trio'' \<and> ''Trio'' \<notin> set [''Solo'', ''Duo'', ''Squad'']"
    by (simp add: trio_body_def)
  have b: "pb_name nameless_body = Absent"
    by (simp add: nameless_body_def)
  have c: "mb_status paused_body = Given ''paused''
      \<and> ''paused'' \<notin> set [''scheduled'', ''live'', ''completed'']"
    by (simp add: paused_body_def)
  show ?thesis
    using a b c
      invalid_body_rejected [of trio_body "[1, 2, 3]" other_id sample_store nameless_body
        "''abc123''" paused_body]
    by simp
qed

section \<open>Documents are only ever added\<close>

lemma create_tournament_appends:
  "\<exists>new. snd (create_tournament payload rnd new_id db) c = db c @ new \<and> length new \<le> 1"
  by (simp add: create_tournament_def create_document_def Let_def split: option.splits)

lemma register_participant_appends:
  "\<exists>new. snd (register_participant tid payload new_id db) c = db c @ new \<and> length new \<le> 1"
  by (simp add: register_participant_def create_document_def Let_def
      split: option.splits sum.splits)

lemma create_match_appends:
  "\<exists>new. snd (create_match tid payload new_id db) c = db c @ new \<and> length new \<le> 1"
  by (simp add: create_match_def create_document_def Let_def split: option.splits sum.splits)

lemma serve_appends: "\<exists>new. snd (serve r db) c = db c @ new \<and> length new \<le> 1"
proof (cases r)
  case (PostTournament body rnd new_id)
  show ?thesis
  proof (cases "validate_tournament body")
    case (Inl e)
    with PostTournament show ?thesis by (simp add: post_tournaments_def)
  next
    case (Inr payload)
    with PostTournament create_tournament_appends [of payload rnd new_id db c]
    show ?thesis by (auto simp: post_tournaments_def split: prod.splits)
  qed
next
  case (PostRegister tid body new_id)
  show ?thesis
  proof (cases "validate_participant body")
    case (Inl e)
    with PostRegister show ?thesis by (simp add: post_register_def)
  next
    case (Inr payload)
    with PostRegister register_participant_appends [of tid payload new_id db c]
    show ?thesis by (auto simp: post_register_def split: prod.splits)
  qed
next
  case (PostMatch tid body new_id)
  show ?thesis
  proof (cases "validate_match body")
    case (Inl e)
    with PostMatch show ?thesis by (simp add: post_matches_def)
  next
    case (Inr payload)
    with PostMatch create_match_appends [of tid payload new_id db c]
    show ?thesis by (auto simp: post_matches_def split: prod.splits)
  qed
qed simp_all

lemma run_prefix: "prefix (db c) (run rs db c)"
proof (induction rs arbitrary: db)
  case Nil
  show ?case by simp
next
  case (Cons r rs)
  obtain new where "snd (serve r db) c = db c @ new"
    using serve_appends [of r db c] by blast
  then have "prefix (db c) (snd (serve r db) c)" by simp
  with Cons [of "snd (serve r db)"] show ?case
    by (auto intro: prefix_order.trans)
qed

text \<open>
  C9. A request adds at most one document at the end of a collection and leaves every
  document already there as it is; after any sequence of requests each collection
  still starts with the documents it had. So the \<^verbatim>\<open>_id\<close> and the \<^verbatim>\<open>share_code\<close> of a
  tournament never change once it is stored.
\<close>

theorem requests_only_append:
  "(\<exists>new. snd (serve r db) c = db c @ new \<and> length new \<le> 1)
   \<and> prefix (db c) (run rs db c)"
  by (intro conjI serve_appends run_prefix)

theorem requests_only_append_witness:
  "prefix (sample_store ''tournament'')
     (run [PostTournament sample_body [0xAB, 0xCD, 0xEF] other_id, GetTournament ''abc123'']
        sample_store ''tournament'')"
  using requests_only_append
    [of "GetRoot" sample_store "''tournament''"
      "[PostTournament sample_body [0xAB, 0xCD, 0xEF] other_id, GetTournament ''abc123'']"]
  by simp

end
